theory Spec2Isabelle
  imports Main "HOL-Library.AList"
begin

text \<open>
  A reminder service polls a calendar, and for every upcoming event and every configured
  offset schedules a job that sends a notification.  The program exists in two source
  files, the second being the first with a call of a \<open>log\<close> helper before and after each
  step; the model follows the first and leaves the progress messages out.
\<close>

section \<open>Values of the JavaScript runtime\<close>

text \<open>
  Numbers.  The program only ever computes with integers (millisecond instants, minute
  counts) and with \<open>NaN\<close>, which \<open>parseInt\<close> returns for a string without digits and
  which a \<open>Date\<close> holds when it is invalid.  A number is therefore an exact integer or
  \<open>NaN\<close>.  The arithmetic of the model is exact; that of the program is exact up to \<open>2^53\<close>
  and rounds beyond, so a statement about a computed value holds of the program where the
  values stay within \<open>2^53\<close>, and the statements below that depend on it say so.
  A \<open>Date\<close> is its time value, a number of milliseconds of magnitude at most 8.64e15, or
  \<open>NaN\<close> for an invalid date.  Strings are lists of 8-bit code units.
\<close>

datatype number = NaN | Num int

fun num_times :: "number \<Rightarrow> number \<Rightarrow> number" where
  "num_times (Num a) (Num b) = Num (a * b)"
| "num_times _ _ = NaN"

fun num_minus :: "number \<Rightarrow> number \<Rightarrow> number" where
  "num_minus (Num a) (Num b) = Num (a - b)"
| "num_minus _ _ = NaN"

text \<open>The relational operator \<open>a > b\<close>: false as soon as one side is \<open>NaN\<close>.\<close>

fun num_greater :: "number \<Rightarrow> number \<Rightarrow> bool" where
  "num_greater (Num a) (Num b) = (b < a)"
| "num_greater _ _ = False"

text \<open>
  \<open>new Date(v)\<close> for a number \<open>v\<close>: the date is invalid when \<open>v\<close> is \<open>NaN\<close> or lies outside
  the range of time values.
\<close>

definition new_Date :: "number \<Rightarrow> number" where
  "new_Date v =
     (case v of
        NaN \<Rightarrow> NaN
      | Num t \<Rightarrow> if \<bar>t\<bar> \<le> 8640000000000000 then Num t else NaN)"

text \<open>
  Errors thrown by the program or by its collaborators.  \<open>Error\<close> is the plain JavaScript
  error with its message, \<open>TypeError\<close> the runtime's complaint about an argument,
  \<open>SystemError\<close> a failed file read and \<open>CollaboratorError\<close> a failure reported by the
  calendar, the chat service, the shout-out service or the template engine.
\<close>

datatype error = Error string | TypeError string | SystemError string | CollaboratorError string

text \<open>\<open>ToString\<close> of a value that is a string or \<open>undefined\<close> (\<open>None\<close>).\<close>

fun ToString :: "string option \<Rightarrow> string" where
  "ToString None = ''undefined''"
| "ToString (Some s) = s"

section \<open>The offset parser\<close>

subsection \<open>\<open>String.prototype.split\<close> with the separator \<open>' '\<close>\<close>

fun split_sp :: "string \<Rightarrow> string list" where
  "split_sp [] = [] # []"
| "split_sp (c # cs) =
     (if c = CHR '' '' then [] # split_sp cs
      else (case split_sp cs of [] \<Rightarrow> [c] # [] | p # ps \<Rightarrow> (c # p) # ps))"

text \<open>An array element read by index: \<open>undefined\<close> past the end.\<close>

fun element :: "'a list \<Rightarrow> nat \<Rightarrow> 'a option" where
  "element [] _ = None"
| "element (x # xs) 0 = Some x"
| "element (x # xs) (Suc i) = element xs i"

subsection \<open>\<open>parseInt\<close> with no radix argument\<close>

definition StrWhiteSpaceChar :: "char \<Rightarrow> bool" where
  "StrWhiteSpaceChar c \<longleftrightarrow>
     c \<in> set [CHR 0x09, CHR 0x0A, CHR 0x0B, CHR 0x0C, CHR 0x0D, CHR 0x20, CHR 0xA0]"

definition digit_value :: "char \<Rightarrow> nat option" where
  "digit_value c =
     (let n = (of_char c :: nat) in
      if 48 \<le> n \<and> n \<le> 57 then Some (n - 48)
      else if 97 \<le> n \<and> n \<le> 102 then Some (n - 87)
      else if 65 \<le> n \<and> n \<le> 70 then Some (n - 55)
      else None)"

definition radix_digit :: "nat \<Rightarrow> char \<Rightarrow> nat option" where
  "radix_digit R c =
     (case digit_value c of None \<Rightarrow> None | Some d \<Rightarrow> if d < R then Some d else None)"

text \<open>The value of the longest prefix of radix-\<open>R\<close> digits, read left to right.\<close>

fun digits_value :: "nat \<Rightarrow> nat \<Rightarrow> string \<Rightarrow> nat" where
  "digits_value R acc [] = acc"
| "digits_value R acc (c # cs) =
     (case radix_digit R c of None \<Rightarrow> acc | Some d \<Rightarrow> digits_value R (acc * R + d) cs)"

definition parseInt :: "string \<Rightarrow> number" where
  "parseInt inputString =
     (let S = dropWhile StrWhiteSpaceChar inputString;
          sign = (if take 1 S = ''-'' then - 1 else (1::int));
          S1 = (if take 1 S = ''+'' \<or> take 1 S = ''-'' then drop 1 S else S);
          hex = (take 2 S1 = ''0x'' \<or> take 2 S1 = ''0X'');
          R = (if hex then 16 else 10);
          S2 = (if hex then drop 2 S1 else S1)
      in case S2 of
           [] \<Rightarrow> NaN
         | c # _ \<Rightarrow>
             (case radix_digit R c of
                None \<Rightarrow> NaN
              | Some _ \<Rightarrow> Num (sign * int (digits_value R 0 S2))))"

subsection \<open>\<open>parseTimeToMinutes\<close>\<close>

definition parseTimeToMinutes :: "string \<Rightarrow> error + number" where
  "parseTimeToMinutes timeString =
     (let parts = split_sp timeString;
          amount = element parts 0;
          unit = element parts 1
      in if unit = Some ''day'' \<or> unit = Some ''days''
           then Inr (num_times (num_times (parseInt (ToString amount)) (Num 24)) (Num 60))
         else if unit = Some ''hour'' \<or> unit = Some ''hours''
           then Inr (num_times (parseInt (ToString amount)) (Num 60))
         else if unit = Some ''minute'' \<or> unit = Some ''minutes''
           then Inr (parseInt (ToString amount))
         else Inl (Error (''Unsupported time unit: '' @ ToString unit)))"

subsection \<open>The words of the specification about offsets\<close>

text \<open>
  The decimal numeral of a natural number, the \<open>amount\<close> of an offset string, and the
  factor the specification gives for each unit.
\<close>

definition digit_char :: "nat \<Rightarrow> char" where
  "digit_char d = ''0123456789'' ! d"

fun decimal :: "nat \<Rightarrow> string" where
  "decimal n = (if n < 10 then [digit_char n] else decimal (n div 10) @ [digit_char (n mod 10)])"

declare decimal.simps [simp del]

definition recognized_units :: "string list" where
  "recognized_units = [''minute'', ''minutes'', ''hour'', ''hours'', ''day'', ''days'']"

fun strictly_positive :: "number \<Rightarrow> bool" where
  "strictly_positive (Num k) = (0 < k)"
| "strictly_positive NaN = False"

definition minutes_per_unit :: "string \<Rightarrow> int" where
  "minutes_per_unit u =
     (if u = ''minute'' \<or> u = ''minutes'' then 1
      else if u = ''hour'' \<or> u = ''hours'' then 60
      else 1440)"

section \<open>Configuration, events and the state of the process\<close>

text \<open>
  An entry of \<open>notifications.yml\<close> and the object \<open>NOTIFICATION_TIMES\<close> holds for it.
  The second has the two properties \<open>minutes\<close> and \<open>originalTime\<close> and no other.
\<close>

record notification =
  time :: string
  type :: "string option"
  template :: "string option"

record reminder_offset =
  minutes :: number
  originalTime :: string

text \<open>
  \<open>notificationConfig.notifications.map(...)\<close>, run once when the module is loaded: the
  first entry that \<open>parseTimeToMinutes\<close> rejects throws out of the \<open>map\<close>.
\<close>

fun NOTIFICATION_TIMES :: "notification list \<Rightarrow> error + reminder_offset list" where
  "NOTIFICATION_TIMES [] = Inr []"
| "NOTIFICATION_TIMES (n # ns) =
     (case parseTimeToMinutes (time n) of
        Inl e \<Rightarrow> Inl e
      | Inr m \<Rightarrow>
          (case NOTIFICATION_TIMES ns of
             Inl e \<Rightarrow> Inl e
           | Inr rest \<Rightarrow> Inr (\<lparr>minutes = m, originalTime = time n\<rparr> # rest)))"

text \<open>
  A calendar event.  The program reads \<open>summary\<close>, \<open>start.dateTime\<close>, \<open>start.date\<close>,
  \<open>location\<close>, \<open>description\<close> and \<open>htmlLink\<close>; the calendar also gives every event an
  identifier, which the program never reads.
\<close>

record event_start =
  dateTime :: "string option"
  date :: "string option"

record event =
  event_id :: string
  summary :: "string option"
  start :: event_start
  location :: "string option"
  description :: "string option"
  htmlLink :: "string option"

record event_data =
  eventTitle :: "string option"
  eventTime :: string
  eventLocation :: string
  eventDescription :: string
  eventLink :: string

text \<open>
  What \<open>getTemplate\<close> can return: a template compiled from the contents of a file, or a
  property that the cache object \<open>{}\<close> inherits from \<open>Object.prototype\<close>.
\<close>

datatype compiled_template = Compiled string | Inherited string

text \<open>
  A pending job of the scheduling library: the date given to \<open>schedule.scheduleJob\<close> and
  the two variables its callback closes over.
\<close>

record job =
  fireDate :: number
  job_event :: event
  job_notification :: reminder_offset

text \<open>
  The mutable state: the template cache, the pending jobs of the scheduling library, and
  the trace of what the process did to the outside world (readings of the clock, files
  read, messages handed to each delivery service, lines written to the console).
\<close>

record state =
  templates :: "(string \<times> compiled_template) list"
  jobs :: "job list"
  ticks :: nat
  reads :: "string list"
  slack_calls :: "string list"
  hibob_calls :: "string list"
  console :: "(string \<times> error) list"

text \<open>
  The collaborators.  \<open>clock k\<close> is the \<open>k\<close>-th reading of the wall clock, the time value
  of a valid date; \<open>Date_parse\<close> is the parser of date strings behind \<open>new Date(string)\<close>;
  \<open>readFileSync k name\<close> is the outcome of reading the template file \<open>name\<close> when \<open>k\<close>
  reads came before; \<open>postMessage k text\<close> and \<open>post k text\<close> are the outcomes of the
  \<open>k+1\<close>-th call of the chat service and of the shout-out service (\<open>None\<close> for success).
\<close>

record env =
  clock :: "nat \<Rightarrow> int"
  Date_parse :: "string \<Rightarrow> number"
  toLocaleString :: "number \<Rightarrow> string"
  events_list :: "number \<Rightarrow> error + event list"
  readFileSync :: "nat \<Rightarrow> string \<Rightarrow> error + string"
  template_call :: "compiled_template \<Rightarrow> event_data \<Rightarrow> error + string"
  postMessage :: "nat \<Rightarrow> string \<Rightarrow> error option"
  post :: "nat \<Rightarrow> string \<Rightarrow> error option"

text \<open>\<open>new Date()\<close>: one more reading of the clock.\<close>

definition Date_now :: "env \<Rightarrow> state \<Rightarrow> number \<times> state" where
  "Date_now env st = (Num (clock env (ticks st)), st\<lparr>ticks := Suc (ticks st)\<rparr>)"

text \<open>\<open>a || b\<close> on values that are strings or \<open>undefined\<close>: the empty string is falsy.\<close>

definition or_else :: "string option \<Rightarrow> string option \<Rightarrow> string option" where
  "or_else a b = (case a of None \<Rightarrow> b | Some s \<Rightarrow> if s = [] then b else Some s)"

text \<open>\<open>new Date(event.start.dateTime || event.start.date)\<close>, as its time value.\<close>

definition startTime_of :: "env \<Rightarrow> event \<Rightarrow> number" where
  "startTime_of env ev =
     (case or_else (dateTime (start ev)) (date (start ev)) of
        None \<Rightarrow> NaN
      | Some s \<Rightarrow> new_Date (Date_parse env s))"

section \<open>Templates and dispatch\<close>

definition Object_prototype_keys :: "string list" where
  "Object_prototype_keys =
     [''constructor'', ''__defineGetter__'', ''__defineSetter__'', ''hasOwnProperty'',
      ''__lookupGetter__'', ''__lookupSetter__'', ''isPrototypeOf'', ''propertyIsEnumerable'',
      ''toString'', ''valueOf'', ''__proto__'', ''toLocaleString'']"

text \<open>\<open>templates[key]\<close>: an own property first, then the prototype; \<open>None\<close> is \<open>undefined\<close>.\<close>

definition property :: "(string \<times> compiled_template) list \<Rightarrow> string \<Rightarrow> compiled_template option" where
  "property obj key =
     (case map_of obj key of
        Some t \<Rightarrow> Some t
      | None \<Rightarrow> if key \<in> set Object_prototype_keys then Some (Inherited key) else None)"

text \<open>
  \<open>getTemplate\<close>.  Every value a property of the cache can have is truthy, so the test
  \<open>!templates[templateName]\<close> asks whether the property is \<open>undefined\<close>.  \<open>path.join\<close>
  throws a \<open>TypeError\<close> for an argument that is not a string, \<open>fs.readFileSync\<close> throws
  when the file cannot be read, and \<open>Handlebars.compile\<close> of a string returns a function.
\<close>

definition getTemplate :: "env \<Rightarrow> string option \<Rightarrow> state \<Rightarrow> (error + compiled_template) \<times> state" where
  "getTemplate env templateName st =
     (case property (templates st) (ToString templateName) of
        Some t \<Rightarrow> (Inr t, st)
      | None \<Rightarrow>
          (case templateName of
             None \<Rightarrow> (Inl (TypeError ''The path argument must be of type string''), st)
           | Some name \<Rightarrow>
               (let st1 = st\<lparr>reads := reads st @ [name]\<rparr>
                in case readFileSync env (length (reads st)) name of
                     Inl e \<Rightarrow> (Inl e, st1)
                   | Inr templateContent \<Rightarrow>
                       (Inr (Compiled templateContent),
                        st1\<lparr>templates :=
                              AList.update name (Compiled templateContent) (templates st1)\<rparr>))))"

text \<open>\<open>x || ''\<close>.\<close>

definition or_empty :: "string option \<Rightarrow> string" where
  "or_empty x = (case x of None \<Rightarrow> [] | Some s \<Rightarrow> s)"

definition formatEventData :: "env \<Rightarrow> event \<Rightarrow> event_data" where
  "formatEventData env ev =
     \<lparr>eventTitle = summary ev,
      eventTime = toLocaleString env (startTime_of env ev),
      eventLocation = or_empty (location ev),
      eventDescription = or_empty (description ev),
      eventLink = or_empty (htmlLink ev)\<rparr>"

text \<open>
  The two senders.  Each makes one call to its service inside \<open>try\<close>; a failure is written
  to the console and the function returns normally.
\<close>

definition sendSlackMessage :: "env \<Rightarrow> string \<Rightarrow> state \<Rightarrow> (error + unit) \<times> state" where
  "sendSlackMessage env message st =
     (let st1 = st\<lparr>slack_calls := slack_calls st @ [message]\<rparr>
      in case postMessage env (length (slack_calls st)) message of
           None \<Rightarrow> (Inr (), st1)
         | Some e \<Rightarrow>
             (Inr (), st1\<lparr>console := console st1 @ [(''Error sending Slack message:'', e)]\<rparr>))"

definition sendHiBobShoutout :: "env \<Rightarrow> string \<Rightarrow> state \<Rightarrow> (error + unit) \<times> state" where
  "sendHiBobShoutout env message st =
     (let st1 = st\<lparr>hibob_calls := hibob_calls st @ [message]\<rparr>
      in case post env (length (hibob_calls st)) message of
           None \<Rightarrow> (Inr (), st1)
         | Some e \<Rightarrow>
             (Inr (), st1\<lparr>console := console st1 @ [(''Error sending HiBob shoutout:'', e)]\<rparr>))"

text \<open>
  The second argument of \<open>sendNotification\<close> is an object whose properties \<open>template\<close>
  and \<open>type\<close> are read.  Two kinds of object exist in the program: the entries of the
  configuration and the elements of \<open>NOTIFICATION_TIMES\<close>; reading a property that an
  object does not have gives \<open>undefined\<close>.
\<close>

datatype notificationConfig = Rule notification | Offset reminder_offset

fun template_of :: "notificationConfig \<Rightarrow> string option" where
  "template_of (Rule r) = template r"
| "template_of (Offset _) = None"

fun type_of :: "notificationConfig \<Rightarrow> string option" where
  "type_of (Rule r) = type r"
| "type_of (Offset _) = None"

text \<open>
  \<open>sendNotification\<close>, an \<open>async\<close> function: \<open>Inl\<close> is a rejected promise.  Nothing in its
  body catches what \<open>getTemplate\<close> or the call of the template throws.
\<close>

definition sendNotification :: "env \<Rightarrow> event \<Rightarrow> notificationConfig \<Rightarrow> state \<Rightarrow> (error + unit) \<times> state" where
  "sendNotification env ev cfg st =
     (case getTemplate env (template_of cfg) st of
        (Inl e, st1) \<Rightarrow> (Inl e, st1)
      | (Inr tmpl, st1) \<Rightarrow>
          (let eventData = formatEventData env ev
           in case template_call env tmpl eventData of
                Inl e \<Rightarrow> (Inl e, st1)
              | Inr message \<Rightarrow>
                  if type_of cfg = Some ''slack'' then sendSlackMessage env message st1
                  else if type_of cfg = Some ''hibob'' then sendHiBobShoutout env message st1
                  else (Inr (), st1)))"

section \<open>Scheduling\<close>

text \<open>
  \<open>schedule.scheduleJob(reminderTime, callback)\<close>: the library registers one more one-shot
  job.  It takes no key and compares the new job with no other.
\<close>

definition scheduleJob :: "number \<Rightarrow> event \<Rightarrow> reminder_offset \<Rightarrow> state \<Rightarrow> state" where
  "scheduleJob reminderTime ev n st =
     st\<lparr>jobs := jobs st @ [\<lparr>fireDate = reminderTime, job_event = ev, job_notification = n\<rparr>]\<rparr>"

text \<open>The body of the inner \<open>forEach\<close> of \<open>scheduleReminders\<close>, for one event and one offset.\<close>

definition schedule_notification :: "env \<Rightarrow> event \<Rightarrow> number \<Rightarrow> reminder_offset \<Rightarrow> state \<Rightarrow> state" where
  "schedule_notification env ev startTime n st =
     (let reminderTime = new_Date (num_minus startTime (num_times (minutes n) (Num 60000)));
          (now, st1) = Date_now env st
      in if num_greater reminderTime now then scheduleJob reminderTime ev n st1 else st1)"

text \<open>The body of the outer \<open>forEach\<close>, for one event.\<close>

definition schedule_event :: "env \<Rightarrow> reminder_offset list \<Rightarrow> event \<Rightarrow> state \<Rightarrow> state" where
  "schedule_event env offsets ev st =
     (let startTime = startTime_of env ev
      in fold (schedule_notification env ev startTime) offsets st)"

text \<open>
  \<open>getUpcomingEvents\<close>, an \<open>async\<close> function whose whole body is inside \<open>try\<close>; the request
  carries one reading of the clock as \<open>timeMin\<close>.
\<close>

definition getUpcomingEvents :: "env \<Rightarrow> state \<Rightarrow> (error + event list) \<times> state" where
  "getUpcomingEvents env st =
     (let (now, st1) = Date_now env st
      in case events_list env now of
           Inr items \<Rightarrow> (Inr items, st1)
         | Inl e \<Rightarrow>
             (Inr [], st1\<lparr>console := console st1 @ [(''Error fetching calendar events:'', e)]\<rparr>))"

text \<open>\<open>scheduleReminders\<close>: one poll cycle.  \<open>await\<close> would pass a rejection on.\<close>

definition scheduleReminders :: "env \<Rightarrow> reminder_offset list \<Rightarrow> state \<Rightarrow> (error + unit) \<times> state" where
  "scheduleReminders env offsets st =
     (case getUpcomingEvents env st of
        (Inl e, st1) \<Rightarrow> (Inl e, st1)
      | (Inr events, st1) \<Rightarrow> (Inr (), fold (schedule_event env offsets) events st1))"

text \<open>
  A job fires: the library drops the one-shot job and runs its callback, which calls
  \<open>sendNotification(event, notification)\<close> with the element of \<open>NOTIFICATION_TIMES\<close> and
  neither awaits the promise nor attaches a handler to it.  The result is that promise.
\<close>

definition fire :: "env \<Rightarrow> job \<Rightarrow> state \<Rightarrow> (error + unit) \<times> state" where
  "fire env j st =
     sendNotification env (job_event j) (Offset (job_notification j))
       (st\<lparr>jobs := remove1 j (jobs st)\<rparr>)"

text \<open>The number of pending jobs for an event identifier and an offset.\<close>

definition count_jobs :: "string \<Rightarrow> reminder_offset \<Rightarrow> job list \<Rightarrow> nat" where
  "count_jobs i n js =
     length (filter (\<lambda>j. event_id (job_event j) = i \<and> job_notification j = n) js)"

definition live_jobs :: "string \<Rightarrow> reminder_offset \<Rightarrow> state \<Rightarrow> nat" where
  "live_jobs i n st = count_jobs i n (jobs st)"

subsection \<open>The words of the specification about the plan\<close>

text \<open>
  The fire instant of an event and an offset is the start instant of the event minus the
  minutes of the offset, in milliseconds; there is none when the start or the minutes are
  not numbers.  It is valid when it is the time value of a valid date.
\<close>

definition fire_instant :: "env \<Rightarrow> event \<Rightarrow> reminder_offset \<Rightarrow> int option" where
  "fire_instant env ev n =
     (case startTime_of env ev of
        NaN \<Rightarrow> None
      | Num s \<Rightarrow> (case minutes n of NaN \<Rightarrow> None | Num m \<Rightarrow> Some (s - m * 60000)))"

definition valid_fire_instant :: "env \<Rightarrow> event \<Rightarrow> reminder_offset \<Rightarrow> bool" where
  "valid_fire_instant env ev n =
     (case fire_instant env ev n of None \<Rightarrow> True | Some t \<Rightarrow> \<bar>t\<bar> \<le> 8640000000000000)"

text \<open>
  The plan of one event: for each configured offset in the order of the configuration, the
  pair is in the plan only if its fire instant is strictly later than the current instant.
  The current instant of the \<open>j\<close>-th offset is reading \<open>k + j\<close> of the clock, the program
  reading the clock anew for every pair.  The plan of a poll cycle is the plans of its
  events one after the other.
\<close>

fun buildPlan :: "env \<Rightarrow> event \<Rightarrow> reminder_offset list \<Rightarrow> nat \<Rightarrow> job list" where
  "buildPlan env ev [] k = []"
| "buildPlan env ev (n # ns) k =
     (case fire_instant env ev n of
        None \<Rightarrow> []
      | Some t \<Rightarrow>
          if clock env k < t then [\<lparr>fireDate = Num t, job_event = ev, job_notification = n\<rparr>]
          else [])
     @ buildPlan env ev ns (Suc k)"

fun cycle_plan :: "env \<Rightarrow> reminder_offset list \<Rightarrow> event list \<Rightarrow> nat \<Rightarrow> job list" where
  "cycle_plan env offsets [] k = []"
| "cycle_plan env offsets (ev # evs) k =
     buildPlan env ev offsets k @ cycle_plan env offsets evs (k + length offsets)"

text \<open>
  A job's fire date is exact when it is the start instant of the job's event minus the
  job's offset in milliseconds, both being numbers.
\<close>

definition fire_instant_exact :: "env \<Rightarrow> job \<Rightarrow> bool" where
  "fire_instant_exact env j =
     (case startTime_of env (job_event j) of
        NaN \<Rightarrow> False
      | Num s \<Rightarrow>
          (case minutes (job_notification j) of
             NaN \<Rightarrow> False
           | Num m \<Rightarrow> fireDate j = Num (s - m * 60000)))"

text \<open>Any number of calls of \<open>getTemplate\<close>, one after the other, results discarded.\<close>

fun getTemplate_calls :: "env \<Rightarrow> string option list \<Rightarrow> state \<Rightarrow> state" where
  "getTemplate_calls env [] st = st"
| "getTemplate_calls env (templateName # others) st =
     getTemplate_calls env others (snd (getTemplate env templateName st))"

text \<open>
  The template names that were read with success, and so compiled, in the order of the
  trace of reads.
\<close>

definition compilations :: "env \<Rightarrow> string list \<Rightarrow> string list" where
  "compilations env rs =
     map snd (filter (\<lambda>(k, name). \<not> isl (readFileSync env k name)) (enumerate 0 rs))"

text \<open>
  The invariant behind the cache: no name was compiled twice, and every name that was
  compiled is an own property of the cache.
\<close>

definition compiled_once :: "env \<Rightarrow> state \<Rightarrow> bool" where
  "compiled_once env st \<longleftrightarrow>
     distinct (compilations env (reads st)) \<and>
     set (compilations env (reads st)) \<subseteq> fst ` set (templates st)"

section \<open>A small installation\<close>

text \<open>
  One event that starts two days after the epoch, the offset of ten minutes, a clock that
  advances by one millisecond per reading and a state in which nothing has happened yet.
  The only template file is \<open>slack.hbs\<close>, which renders to its own text whatever the event;
  both delivery services accept every message.  Of the properties the cache inherits,
  \<open>toString\<close> called as a template gives \<open>[object Undefined]\<close>, \<open>constructor\<close> gives back
  the event data, shown here by its string form, and the others throw a \<open>TypeError\<close>.
\<close>

definition standup :: event where
  "standup =
     \<lparr>event_id = ''evt1'', summary = Some ''Standup'',
      start = \<lparr>dateTime = Some ''1970-01-03T00:00:00Z'', date = None\<rparr>,
      location = None, description = None, htmlLink = None\<rparr>"

definition ten_minutes :: reminder_offset where
  "ten_minutes = \<lparr>minutes = Num 10, originalTime = ''10 minutes''\<rparr>"

definition one_day :: reminder_offset where
  "one_day = \<lparr>minutes = Num 1440, originalTime = ''1 day''\<rparr>"

definition installation :: env where
  "installation =
     \<lparr>clock = (\<lambda>k. int k),
      Date_parse = (\<lambda>s. if s = ''1970-01-03T00:00:00Z'' then Num 172800000 else NaN),
      toLocaleString = (\<lambda>t. ''1/3/1970, 12:00:00 AM''),
      events_list = (\<lambda>timeMin. Inr [standup]),
      readFileSync = (\<lambda>k name. if name = ''slack.hbs'' then Inr ''Reminder'' else Inl (SystemError ''ENOENT'')),
      template_call =
        (\<lambda>t d. case t of
           Compiled c \<Rightarrow> Inr c
         | Inherited p \<Rightarrow>
             if p = ''toString'' then Inr ''[object Undefined]''
             else if p = ''constructor'' then Inr ''[object Object]''
             else Inl (TypeError p)),
      postMessage = (\<lambda>k text. None),
      post = (\<lambda>k text. None)\<rparr>"

definition chat_rule :: notification where
  "chat_rule = \<lparr>time = ''10 minutes'', type = Some ''slack'', template = Some ''slack.hbs''\<rparr>"

definition email_rule :: notification where
  "email_rule = \<lparr>time = ''1 day'', type = Some ''email'', template = Some ''email.hbs''\<rparr>"

text \<open>The same installation with a chat service that rejects the first message only.\<close>

definition flaky_chat :: env where
  "flaky_chat =
     installation\<lparr>postMessage :=
       (\<lambda>k text. if k = 0 then Some (CollaboratorError ''channel_not_found'') else None)\<rparr>"

text \<open>The same installation with a disk that fails the first read and serves the later ones.\<close>

definition recovering_disk :: env where
  "recovering_disk =
     installation\<lparr>readFileSync :=
       (\<lambda>k name. if k = 0 then Inl (SystemError ''EACCES'')
                 else if name = ''slack.hbs'' then Inr ''Reminder''
                 else Inl (SystemError ''ENOENT''))\<rparr>"

definition startup :: state where
  "startup =
     \<lparr>templates = [], jobs = [], ticks = 0, reads = [], slack_calls = [], hibob_calls = [],
      console = []\<rparr>"

section \<open>Properties of the offset parser\<close>

lemma split_sp_nospace: "CHR '' '' \<notin> set a \<Longrightarrow> split_sp (a @ CHR '' '' # r) = a # split_sp r"
  by (induction a) auto

lemma split_sp_nospace1: "CHR '' '' \<notin> set a \<Longrightarrow> split_sp a = [a]"
  by (induction a) auto

lemma split_sp_two:
  "CHR '' '' \<notin> set a \<Longrightarrow> CHR '' '' \<notin> set u \<Longrightarrow> split_sp (a @ '' '' @ u) = [a, u]"
  by (simp add: split_sp_nospace split_sp_nospace1)

lemma digit_char_value:
  assumes "d < 10"
  shows "radix_digit 10 (digit_char d) = Some d"
proof -
  from assms have "d = 0 \<or> d = 1 \<or> d = 2 \<or> d = 3 \<or> d = 4 \<or> d = 5 \<or> d = 6 \<or> d = 7 \<or> d = 8 \<or> d = 9"
    by presburger
  then show ?thesis
    by (elim disjE) (simp_all add: radix_digit_def digit_value_def digit_char_def)
qed

lemma digits_value_append:
  "\<forall>c\<in>set xs. radix_digit R c \<noteq> None \<Longrightarrow>
   digits_value R acc (xs @ ys) = digits_value R (digits_value R acc xs) ys"
  by (induction xs arbitrary: acc) (auto split: option.splits)

lemma decimal_digits: "\<forall>c\<in>set (decimal n). radix_digit 10 c \<noteq> None"
proof (induction n rule: decimal.induct)
  case (1 n)
  show ?case
  proof (cases "n < 10")
    case True
    then show ?thesis by (simp add: decimal.simps [of n] digit_char_value)
  next
    case False
    have "n mod 10 < 10" by simp
    with False 1 show ?thesis
      by (simp add: decimal.simps [of n] digit_char_value)
  qed
qed

lemma decimal_not_Nil: "decimal n \<noteq> []"
  by (simp add: decimal.simps [of n])

lemma digits_value_decimal: "digits_value 10 0 (decimal n) = n"
proof (induction n rule: decimal.induct)
  case (1 n)
  show ?case
  proof (cases "n < 10")
    case True
    then show ?thesis by (simp add: decimal.simps [of n] digit_char_value)
  next
    case False
    have d: "radix_digit 10 (digit_char (n mod 10)) = Some (n mod 10)"
      by (simp add: digit_char_value)
    have "digits_value 10 0 (decimal n) =
          digits_value 10 (digits_value 10 0 (decimal (n div 10))) [digit_char (n mod 10)]"
      using False by (simp add: decimal.simps [of n] digits_value_append decimal_digits)
    also have "\<dots> = (n div 10) * 10 + n mod 10"
      using False 1 d by simp
    finally show ?thesis by simp
  qed
qed

lemma radix_digit_10_range:
  assumes "radix_digit 10 c \<noteq> None"
  shows "48 \<le> (of_char c :: nat) \<and> (of_char c :: nat) \<le> 57"
  using assms by (auto simp: radix_digit_def digit_value_def Let_def split: if_splits)

lemma radix_digit_10_plain:
  assumes "radix_digit 10 c \<noteq> None"
  shows "\<not> StrWhiteSpaceChar c" "c \<noteq> CHR ''+''" "c \<noteq> CHR ''-''" "c \<noteq> CHR ''x''" "c \<noteq> CHR ''X''"
    "c \<noteq> CHR '' ''"
  using radix_digit_10_range [OF assms] by (auto simp: StrWhiteSpaceChar_def)

lemma parseInt_digits:
  assumes "xs \<noteq> []" and "\<forall>c\<in>set xs. radix_digit 10 c \<noteq> None"
  shows "parseInt xs = Num (int (digits_value 10 0 xs))"
proof -
  from assms obtain c cs where xs: "xs = c # cs" by (cases xs) auto
  with assms have c: "radix_digit 10 c \<noteq> None" by simp
  have hex: "\<not> (take 2 xs = ''0x'' \<or> take 2 xs = ''0X'')"
  proof (cases cs)
    case Nil
    with xs show ?thesis by simp
  next
    case (Cons c' cs')
    with xs assms have "radix_digit 10 c' \<noteq> None" by simp
    from radix_digit_10_plain(4,5) [OF this] xs Cons show ?thesis by simp
  qed
  from c obtain d where d: "radix_digit 10 c = Some d" by auto
  have ws: "dropWhile StrWhiteSpaceChar xs = xs"
    using xs radix_digit_10_plain(1) [OF c] by simp
  have sign: "take 1 xs \<noteq> ''-''" "take 1 xs \<noteq> ''+''"
    using xs radix_digit_10_plain(2,3) [OF c] by simp_all
  have "parseInt xs =
        (case xs of [] \<Rightarrow> NaN
         | c # _ \<Rightarrow> (case radix_digit 10 c of None \<Rightarrow> NaN
                      | Some _ \<Rightarrow> Num (1 * int (digits_value 10 0 xs))))"
    unfolding parseInt_def Let_def ws
    by (simp only: sign hex if_False simp_thms)
  also have "\<dots> = Num (int (digits_value 10 0 xs))"
    by (simp add: xs d del: digits_value.simps)
  finally show ?thesis .
qed

lemma parseInt_decimal: "parseInt (decimal n) = Num (int n)"
  by (simp add: parseInt_digits decimal_not_Nil decimal_digits digits_value_decimal)

lemma decimal_no_space: "CHR '' '' \<notin> set (decimal n)"
  using decimal_digits [of n] radix_digit_10_plain(6) by blast

lemma recognized_no_space: "u \<in> set recognized_units \<Longrightarrow> CHR '' '' \<notin> set u"
  by (auto simp: recognized_units_def)

lemma parseTimeToMinutes_decimal:
  assumes "u \<in> set recognized_units"
  shows "parseTimeToMinutes (decimal n @ '' '' @ u) = Inr (Num (int n * minutes_per_unit u))"
proof -
  have parts: "split_sp (decimal n @ '' '' @ u) = [decimal n, u]"
    by (rule split_sp_two [OF decimal_no_space recognized_no_space [OF assms]])
  from assms have "u = ''minute'' \<or> u = ''minutes'' \<or> u = ''hour'' \<or> u = ''hours''
      \<or> u = ''day'' \<or> u = ''days''"
    by (simp add: recognized_units_def)
  then show ?thesis
    unfolding parseTimeToMinutes_def parts Let_def
    by (elim disjE) (simp_all add: parseInt_decimal minutes_per_unit_def)
qed

lemma parseTimeToMinutes_unsupported:
  assumes "CHR '' '' \<notin> set a" and "CHR '' '' \<notin> set u" and "u \<notin> set recognized_units"
  shows "parseTimeToMinutes (a @ '' '' @ u) = Inl (Error (''Unsupported time unit: '' @ u))"
proof -
  have parts: "split_sp (a @ '' '' @ u) = [a, u]"
    by (rule split_sp_two [OF assms(1,2)])
  show ?thesis
    unfolding parseTimeToMinutes_def parts Let_def
    using assms(3) by (simp add: recognized_units_def)
qed

text \<open>
  Claim C4.  For an offset string made of a decimal amount, one space and one of the six
  recognized units, \<open>parseTimeToMinutes\<close> returns the amount times 1, 60 or 1440, as long
  as that product does not exceed \<open>2^53\<close>, up to where the numbers of the program are exact;
  for a string made of an amount, one space and any other unit it throws an error whose
  message ends with that unit.
\<close>

theorem parseTimeToMinutes_units:
  "(u \<in> set recognized_units \<and> int n * minutes_per_unit u \<le> 9007199254740992 \<longrightarrow>
      parseTimeToMinutes (decimal n @ '' '' @ u) = Inr (Num (int n * minutes_per_unit u))) \<and>
   (CHR '' '' \<notin> set a \<and> CHR '' '' \<notin> set v \<and> v \<notin> set recognized_units \<longrightarrow>
      parseTimeToMinutes (a @ '' '' @ v) = Inl (Error (''Unsupported time unit: '' @ v)))"
  using parseTimeToMinutes_decimal parseTimeToMinutes_unsupported by blast

theorem parseTimeToMinutes_units_witness:
  "''hours'' \<in> set recognized_units \<and> ''day'' \<in> set recognized_units \<and>
   ''minutes'' \<in> set recognized_units \<and>
   int 1 * minutes_per_unit ''day'' \<le> 9007199254740992 \<and>
   int 4 * minutes_per_unit ''hours'' \<le> 9007199254740992 \<and>
   int 10 * minutes_per_unit ''minutes'' \<le> 9007199254740992 \<and>
   parseTimeToMinutes ''1 day'' = Inr (Num 1440) \<and>
   parseTimeToMinutes ''4 hours'' = Inr (Num 240) \<and>
   parseTimeToMinutes ''10 minutes'' = Inr (Num 10) \<and>
   CHR '' '' \<notin> set ''3'' \<and> CHR '' '' \<notin> set ''weeks'' \<and> ''weeks'' \<notin> set recognized_units \<and>
   parseTimeToMinutes ''3 weeks'' = Inl (Error ''Unsupported time unit: weeks'') \<and>
   ''Hours'' \<notin> set recognized_units \<and>
   parseTimeToMinutes ''4 Hours'' = Inl (Error ''Unsupported time unit: Hours'')"
  using parseTimeToMinutes_units [of "''hours''" 4 "''3''" "''weeks''"]
    parseTimeToMinutes_units [of "''day''" 1 "''4''" "''Hours''"]
    parseTimeToMinutes_units [of "''minutes''" 10 "''3''" "''weeks''"]
  by (simp add: recognized_units_def minutes_per_unit_def decimal.simps digit_char_def)

text \<open>
  Claim C5, as stated, fails: the unit of \<open>0 minutes\<close> is recognized, the parse succeeds
  and the minute count is zero, in the parser and in the offset built from a configuration
  entry.  Nothing in \<open>parseTimeToMinutes\<close> looks at the sign or the presence of the
  amount.
\<close>

theorem parseTimeToMinutes_zero_amount:
  "parseTimeToMinutes ''0 minutes'' = Inr (Num 0) \<and> \<not> strictly_positive (Num 0) \<and>
   NOTIFICATION_TIMES [chat_rule\<lparr>time := ''0 minutes''\<rparr>] =
     Inr [\<lparr>minutes = Num 0, originalTime = ''0 minutes''\<rparr>]"
  by (simp add: parseTimeToMinutes_def parseInt_def StrWhiteSpaceChar_def radix_digit_def
      digit_value_def chat_rule_def)

lemma NOTIFICATION_TIMES_positive:
  assumes "\<forall>r\<in>set rules. \<exists>n u. 0 < n \<and> u \<in> set recognized_units \<and> time r = decimal n @ '' '' @ u"
  shows "\<exists>offsets. NOTIFICATION_TIMES rules = Inr offsets \<and>
           list_all (\<lambda>offset. strictly_positive (minutes offset)) offsets \<and>
           map originalTime offsets = map time rules"
  using assms
proof (induction rules)
  case Nil
  show ?case by simp
next
  case (Cons r rules)
  then obtain n u where n: "0 < n" and u: "u \<in> set recognized_units"
    and t: "time r = decimal n @ '' '' @ u" by auto
  from u have "0 < minutes_per_unit u" by (simp add: minutes_per_unit_def)
  with n have pos: "0 < int n * minutes_per_unit u" by simp
  from Cons obtain offsets where o: "NOTIFICATION_TIMES rules = Inr offsets"
    and p: "list_all (\<lambda>offset. strictly_positive (minutes offset)) offsets"
    and m: "map originalTime offsets = map time rules" by auto
  from t o p m pos parseTimeToMinutes_decimal [OF u, of n] show ?case by simp
qed

text \<open>
  Claim C5, amended.  When the amount is the decimal numeral of a positive integer and the
  unit is recognized, the parse succeeds with a strictly positive minute count; and when
  every entry of the configuration has such a time, every element of \<open>NOTIFICATION_TIMES\<close>
  has a strictly positive number of minutes.
\<close>

theorem parseTimeToMinutes_positive:
  "(0 < n \<and> u \<in> set recognized_units \<longrightarrow>
      (\<exists>m. parseTimeToMinutes (decimal n @ '' '' @ u) = Inr m \<and> strictly_positive m)) \<and>
   ((\<forall>r\<in>set rules. \<exists>n u. 0 < n \<and> u \<in> set recognized_units \<and> time r = decimal n @ '' '' @ u) \<longrightarrow>
      (\<exists>offsets. NOTIFICATION_TIMES rules = Inr offsets \<and>
         list_all (\<lambda>offset. strictly_positive (minutes offset)) offsets))"
proof (intro conjI impI)
  assume a: "0 < n \<and> u \<in> set recognized_units"
  then have "0 < minutes_per_unit u" by (simp add: minutes_per_unit_def)
  with a have "0 < int n * minutes_per_unit u" by simp
  with a parseTimeToMinutes_decimal [of u n]
  show "\<exists>m. parseTimeToMinutes (decimal n @ '' '' @ u) = Inr m \<and> strictly_positive m" by simp
next
  assume "\<forall>r\<in>set rules. \<exists>n u. 0 < n \<and> u \<in> set recognized_units \<and> time r = decimal n @ '' '' @ u"
  from NOTIFICATION_TIMES_positive [OF this]
  show "\<exists>offsets. NOTIFICATION_TIMES rules = Inr offsets \<and>
         list_all (\<lambda>offset. strictly_positive (minutes offset)) offsets" by blast
qed

theorem parseTimeToMinutes_positive_witness:
  "(0::nat) < 1 \<and> ''day'' \<in> set recognized_units \<and>
   (\<exists>m. parseTimeToMinutes ''1 day'' = Inr m \<and> strictly_positive m) \<and>
   time email_rule = decimal 1 @ '' '' @ ''day'' \<and>
   time chat_rule = decimal 10 @ '' '' @ ''minutes'' \<and>
   ''minutes'' \<in> set recognized_units \<and>
   NOTIFICATION_TIMES [email_rule, chat_rule] =
     Inr [\<lparr>minutes = Num 1440, originalTime = ''1 day''\<rparr>,
          \<lparr>minutes = Num 10, originalTime = ''10 minutes''\<rparr>]"
proof -
  have d1: "decimal 1 = ''1''" and d10: "decimal 10 = ''10''" and d1': "decimal (Suc 0) = ''1''"
    by (simp_all add: decimal.simps digit_char_def)
  have e: "time email_rule = decimal 1 @ '' '' @ ''day''"
    and c: "time chat_rule = decimal 10 @ '' '' @ ''minutes''"
    by (simp_all add: d1' d10 email_rule_def chat_rule_def)
  have r: "\<forall>r\<in>set [email_rule, chat_rule].
      \<exists>n u. 0 < n \<and> u \<in> set recognized_units \<and> time r = decimal n @ '' '' @ u"
  proof (intro ballI)
    fix r assume "r \<in> set [email_rule, chat_rule]"
    then consider "r = email_rule" | "r = chat_rule" by auto
    then show "\<exists>n u. 0 < n \<and> u \<in> set recognized_units \<and> time r = decimal n @ '' '' @ u"
    proof cases
      case 1
      with e show ?thesis by (intro exI [of _ 1] exI [of _ "''day''"]) (simp add: recognized_units_def)
    next
      case 2
      with c show ?thesis by (intro exI [of _ 10] exI [of _ "''minutes''"]) (simp add: recognized_units_def)
    qed
  qed
  have p1: "parseTimeToMinutes ''1 day'' = Inr (Num 1440)"
    and p10: "parseTimeToMinutes ''10 minutes'' = Inr (Num 10)"
    using parseTimeToMinutes_decimal [of "''day''" 1] parseTimeToMinutes_decimal [of "''minutes''" 10]
    by (simp_all add: d1' d10 recognized_units_def minutes_per_unit_def)
  from parseTimeToMinutes_positive [of 1 "''day''" "[email_rule, chat_rule]"] r e c
  show ?thesis
    by (simp add: d1' d10 p1 p10 recognized_units_def email_rule_def chat_rule_def)
qed

section \<open>Properties of the scheduling step\<close>

lemma new_Date_valid: "\<bar>t\<bar> \<le> 8640000000000000 \<Longrightarrow> new_Date (Num t) = Num t"
  by (simp add: new_Date_def)

lemma new_Date_Num: "new_Date v = Num t \<Longrightarrow> v = Num t"
  by (cases v) (simp_all add: new_Date_def split: if_splits)

lemma reminderTime_Some:
  "fire_instant env ev n = Some t \<Longrightarrow>
   num_minus (startTime_of env ev) (num_times (minutes n) (Num 60000)) = Num t"
  by (cases "startTime_of env ev"; cases "minutes n") (auto simp: fire_instant_def)

lemma reminderTime_None:
  "fire_instant env ev n = None \<Longrightarrow>
   num_minus (startTime_of env ev) (num_times (minutes n) (Num 60000)) = NaN"
  by (cases "startTime_of env ev"; cases "minutes n") (auto simp: fire_instant_def)

lemma schedule_notification_jobs:
  "jobs (schedule_notification env ev startTime n st) =
     (if num_greater (new_Date (num_minus startTime (num_times (minutes n) (Num 60000))))
           (Num (clock env (ticks st)))
      then jobs st @
           [\<lparr>fireDate = new_Date (num_minus startTime (num_times (minutes n) (Num 60000))),
             job_event = ev, job_notification = n\<rparr>]
      else jobs st)"
  by (simp add: schedule_notification_def Date_now_def scheduleJob_def Let_def)

lemma schedule_notification_ticks:
  "ticks (schedule_notification env ev startTime n st) = Suc (ticks st)"
  by (simp add: schedule_notification_def Date_now_def scheduleJob_def Let_def)

lemma schedule_notification_valid:
  assumes "fire_instant env ev n = Some t" and "\<bar>t\<bar> \<le> 8640000000000000"
  shows "jobs (schedule_notification env ev (startTime_of env ev) n st) =
           (if clock env (ticks st) < t
            then jobs st @ [\<lparr>fireDate = Num t, job_event = ev, job_notification = n\<rparr>]
            else jobs st)"
  by (simp add: schedule_notification_jobs reminderTime_Some [OF assms(1)]
      new_Date_valid [OF assms(2)])

lemma schedule_notification_plan:
  assumes "valid_fire_instant env ev n"
  shows "jobs (schedule_notification env ev (startTime_of env ev) n st) =
           jobs st @ buildPlan env ev [n] (ticks st)"
proof (cases "fire_instant env ev n")
  case None
  then show ?thesis
    by (simp add: schedule_notification_jobs reminderTime_None new_Date_def)
next
  case (Some t)
  with assms have "\<bar>t\<bar> \<le> 8640000000000000"
    by (simp add: valid_fire_instant_def)
  from schedule_notification_valid [OF Some this, of st] Some show ?thesis by simp
qed

lemma buildPlan_Cons:
  "buildPlan env ev (n # ns) k = buildPlan env ev [n] k @ buildPlan env ev ns (Suc k)"
  by simp

lemma fold_schedule_notification_plan:
  assumes "\<forall>n\<in>set offsets. valid_fire_instant env ev n"
  shows "jobs (fold (schedule_notification env ev (startTime_of env ev)) offsets st) =
           jobs st @ buildPlan env ev offsets (ticks st) \<and>
         ticks (fold (schedule_notification env ev (startTime_of env ev)) offsets st) =
           ticks st + length offsets"
  using assms
proof (induction offsets arbitrary: st)
  case Nil
  show ?case by simp
next
  case (Cons n offsets)
  let ?st1 = "schedule_notification env ev (startTime_of env ev) n st"
  from Cons.prems have v: "valid_fire_instant env ev n"
    and vs: "\<forall>n\<in>set offsets. valid_fire_instant env ev n" by simp_all
  have j1: "jobs ?st1 = jobs st @ buildPlan env ev [n] (ticks st)"
    by (rule schedule_notification_plan [OF v])
  have t1: "ticks ?st1 = Suc (ticks st)"
    by (rule schedule_notification_ticks)
  from Cons.IH [OF vs, of ?st1] j1 t1 show ?case
    by (simp only: fold_simps buildPlan_Cons [of env ev n offsets] append_assoc
        length_Cons add_Suc_right add_Suc)
qed

lemma schedule_event_plan:
  assumes "\<forall>n\<in>set offsets. valid_fire_instant env ev n"
  shows "jobs (schedule_event env offsets ev st) = jobs st @ buildPlan env ev offsets (ticks st)"
    and "ticks (schedule_event env offsets ev st) = ticks st + length offsets"
  using fold_schedule_notification_plan [OF assms, of st]
  by (simp_all add: schedule_event_def)

lemma fold_schedule_event_plan:
  assumes "\<forall>ev\<in>set events. \<forall>n\<in>set offsets. valid_fire_instant env ev n"
  shows "jobs (fold (schedule_event env offsets) events st) =
           jobs st @ cycle_plan env offsets events (ticks st)"
  using assms
proof (induction events arbitrary: st)
  case Nil
  show ?case by simp
next
  case (Cons ev events)
  from Cons.prems have v: "\<forall>n\<in>set offsets. valid_fire_instant env ev n"
    and vs: "\<forall>ev\<in>set events. \<forall>n\<in>set offsets. valid_fire_instant env ev n" by simp_all
  from Cons.IH [OF vs, of "schedule_event env offsets ev st"]
    schedule_event_plan [OF v, of st]
  show ?case by simp
qed

lemma getUpcomingEvents_jobs: "jobs (snd (getUpcomingEvents env st)) = jobs st"
  by (simp add: getUpcomingEvents_def Date_now_def Let_def split: sum.splits)

lemma getUpcomingEvents_resolves: "\<exists>events. fst (getUpcomingEvents env st) = Inr events"
  by (simp add: getUpcomingEvents_def Date_now_def Let_def split: sum.splits)

lemma scheduleReminders_resolves: "fst (scheduleReminders env offsets st) = Inr ()"
  using getUpcomingEvents_resolves [of env st]
  by (cases "getUpcomingEvents env st") (auto simp: scheduleReminders_def)

lemma scheduleReminders_plan:
  assumes "events_list env (Num (clock env (ticks st))) = Inr events"
    and "\<forall>ev\<in>set events. \<forall>n\<in>set offsets. valid_fire_instant env ev n"
  shows "jobs (snd (scheduleReminders env offsets st)) =
           jobs st @ cycle_plan env offsets events (Suc (ticks st))"
proof -
  have "getUpcomingEvents env st = (Inr events, st\<lparr>ticks := Suc (ticks st)\<rparr>)"
    using assms(1) by (simp add: getUpcomingEvents_def Date_now_def)
  then have "snd (scheduleReminders env offsets st) =
      fold (schedule_event env offsets) events (st\<lparr>ticks := Suc (ticks st)\<rparr>)"
    by (simp add: scheduleReminders_def)
  with fold_schedule_event_plan [OF assms(2), of "st\<lparr>ticks := Suc (ticks st)\<rparr>"]
  show ?thesis by simp
qed

text \<open>
  Claim C2.  For an event and an offset whose fire instant \<open>t\<close>, the start of the event
  minus the minutes of the offset, is the time value of a valid date, the body of the loop
  schedules a job if and only if \<open>t\<close> is strictly later than the reading of the clock it
  takes; when the two are equal no job is created.  And a whole poll cycle, over every
  event the calendar returned and every configured offset, appends to the pending jobs
  exactly the plan that the specification describes.
\<close>

theorem scheduleReminders_strict_plan:
  "(fire_instant env ev n = Some t \<and> \<bar>t\<bar> \<le> 8640000000000000 \<longrightarrow>
      jobs (schedule_notification env ev (startTime_of env ev) n st) =
        (if clock env (ticks st) < t
         then jobs st @ [\<lparr>fireDate = Num t, job_event = ev, job_notification = n\<rparr>]
         else jobs st)) \<and>
   (events_list env (Num (clock env (ticks st))) = Inr events \<and>
    (\<forall>ev\<in>set events. \<forall>n\<in>set offsets. valid_fire_instant env ev n) \<longrightarrow>
      jobs (snd (scheduleReminders env offsets st)) =
        jobs st @ cycle_plan env offsets events (Suc (ticks st)))"
  using schedule_notification_valid [of env ev n t st]
    scheduleReminders_plan [of env st events offsets]
  by blast

theorem scheduleReminders_strict_plan_witness:
  "fire_instant installation standup ten_minutes = Some 172200000 \<and>
   \<bar>172200000 :: int\<bar> \<le> 8640000000000000 \<and>
   jobs (schedule_notification installation standup (startTime_of installation standup)
           ten_minutes startup) =
     [\<lparr>fireDate = Num 172200000, job_event = standup, job_notification = ten_minutes\<rparr>] \<and>
   jobs (schedule_notification (installation\<lparr>clock := (\<lambda>k. 172200000)\<rparr>) standup
           (startTime_of (installation\<lparr>clock := (\<lambda>k. 172200000)\<rparr>) standup)
           ten_minutes startup) = [] \<and>
   events_list installation (Num (clock installation (ticks startup))) = Inr [standup] \<and>
   valid_fire_instant installation standup one_day \<and>
   valid_fire_instant installation standup ten_minutes \<and>
   jobs (snd (scheduleReminders installation [one_day, ten_minutes] startup)) =
     [\<lparr>fireDate = Num 86400000, job_event = standup, job_notification = one_day\<rparr>,
      \<lparr>fireDate = Num 172200000, job_event = standup, job_notification = ten_minutes\<rparr>] \<and>
   jobs (snd (scheduleReminders (installation\<lparr>clock := (\<lambda>k. 86400000)\<rparr>)
           [one_day, ten_minutes] startup)) =
     [\<lparr>fireDate = Num 172200000, job_event = standup, job_notification = ten_minutes\<rparr>]"
proof -
  let ?noon = "installation\<lparr>clock := (\<lambda>k. 172200000)\<rparr>"
  let ?late = "installation\<lparr>clock := (\<lambda>k. 86400000)\<rparr>"
  have f: "fire_instant installation standup ten_minutes = Some 172200000"
    "fire_instant ?noon standup ten_minutes = Some 172200000"
    "fire_instant installation standup one_day = Some 86400000"
    "fire_instant ?late standup ten_minutes = Some 172200000"
    "fire_instant ?late standup one_day = Some 86400000"
    by (simp_all add: fire_instant_def startTime_of_def or_else_def new_Date_def
        installation_def standup_def ten_minutes_def one_day_def)
  then have v: "valid_fire_instant installation standup ten_minutes"
    "valid_fire_instant installation standup one_day"
    "valid_fire_instant ?late standup ten_minutes"
    "valid_fire_instant ?late standup one_day"
    by (simp_all add: valid_fire_instant_def)
  have e: "events_list installation (Num (clock installation (ticks startup))) = Inr [standup]"
    "events_list ?late (Num (clock ?late (ticks startup))) = Inr [standup]"
    by (simp_all add: installation_def)
  have c: "clock installation (ticks startup) < 172200000"
    "clock installation (Suc (ticks startup)) < 86400000"
    "clock installation (Suc (Suc (ticks startup))) < 172200000"
    by (simp_all add: installation_def startup_def)
  from scheduleReminders_strict_plan [of installation standup ten_minutes 172200000 startup
      "[standup]" "[one_day, ten_minutes]"]
    scheduleReminders_strict_plan [of ?noon standup ten_minutes 172200000 startup "[]" "[]"]
    scheduleReminders_strict_plan [of ?late standup ten_minutes 172200000 startup
      "[standup]" "[one_day, ten_minutes]"]
    f v e c
  show ?thesis by (simp add: startup_def)
qed

text \<open>
  Claim C6.  When the request to the calendar fails, \<open>getUpcomingEvents\<close> resolves with
  the empty list: the poll cycle ends normally, writes the failure to the console and
  leaves the pending jobs as they were.
\<close>

theorem fetch_failure_is_empty:
  assumes "events_list env (Num (clock env (ticks st))) = Inl e"
  shows "fst (getUpcomingEvents env st) = Inr [] \<and>
         fst (scheduleReminders env offsets st) = Inr () \<and>
         jobs (snd (scheduleReminders env offsets st)) = jobs st \<and>
         console (snd (scheduleReminders env offsets st)) =
           console st @ [(''Error fetching calendar events:'', e)]"
  using assms
  by (simp add: scheduleReminders_def getUpcomingEvents_def Date_now_def Let_def)

theorem fetch_failure_is_empty_witness:
  "events_list (installation\<lparr>events_list := (\<lambda>timeMin. Inl (CollaboratorError ''invalid_grant''))\<rparr>)
     (Num (clock (installation\<lparr>events_list := (\<lambda>timeMin. Inl (CollaboratorError ''invalid_grant''))\<rparr>)
        (ticks startup))) = Inl (CollaboratorError ''invalid_grant'') \<and>
   fst (getUpcomingEvents
     (installation\<lparr>events_list := (\<lambda>timeMin. Inl (CollaboratorError ''invalid_grant''))\<rparr>) startup) = Inr [] \<and>
   jobs (snd (scheduleReminders
     (installation\<lparr>events_list := (\<lambda>timeMin. Inl (CollaboratorError ''invalid_grant''))\<rparr>)
     [ten_minutes] startup)) = []"
  using fetch_failure_is_empty [of "installation\<lparr>events_list := (\<lambda>timeMin. Inl (CollaboratorError ''invalid_grant''))\<rparr>"
      startup "CollaboratorError ''invalid_grant''" "[ten_minutes]"]
  by (simp add: installation_def startup_def)

lemma schedule_notification_new:
  assumes "startTime = startTime_of env ev"
  shows "\<exists>new. jobs (schedule_notification env ev startTime n st) = jobs st @ new \<and>
               list_all (fire_instant_exact env) new"
proof (cases "num_greater (new_Date (num_minus startTime (num_times (minutes n) (Num 60000))))
                (Num (clock env (ticks st)))")
  case True
  then obtain t where t: "new_Date (num_minus startTime (num_times (minutes n) (Num 60000))) = Num t"
    by (cases "new_Date (num_minus startTime (num_times (minutes n) (Num 60000)))") auto
  from new_Date_Num [OF t] assms
  have r: "num_minus (startTime_of env ev) (num_times (minutes n) (Num 60000)) = Num t" by simp
  then obtain s m where s: "startTime_of env ev = Num s" and m: "minutes n = Num m"
    by (cases "startTime_of env ev"; cases "minutes n") auto
  with r have "t = s - m * 60000" by simp
  with s m have "fire_instant_exact env \<lparr>fireDate = Num t, job_event = ev, job_notification = n\<rparr>"
    by (simp add: fire_instant_exact_def)
  with True t show ?thesis
    by (simp add: schedule_notification_jobs)
next
  case False
  then show ?thesis by (simp add: schedule_notification_jobs)
qed

lemma fold_schedule_notification_new:
  assumes "startTime = startTime_of env ev"
  shows "\<exists>new. jobs (fold (schedule_notification env ev startTime) offsets st) = jobs st @ new \<and>
               list_all (fire_instant_exact env) new"
proof (induction offsets arbitrary: st)
  case Nil
  show ?case by simp
next
  case (Cons n offsets)
  from schedule_notification_new [OF assms, of n st]
  obtain new1 where 1: "jobs (schedule_notification env ev startTime n st) = jobs st @ new1"
    and e1: "list_all (fire_instant_exact env) new1" by blast
  from Cons.IH [of "schedule_notification env ev startTime n st"]
  obtain new2 where 2: "jobs (fold (schedule_notification env ev startTime) offsets
        (schedule_notification env ev startTime n st)) =
      jobs (schedule_notification env ev startTime n st) @ new2"
    and e2: "list_all (fire_instant_exact env) new2" by blast
  from 1 2 e1 e2 show ?case by simp
qed

lemma schedule_event_new:
  "\<exists>new. jobs (schedule_event env offsets ev st) = jobs st @ new \<and>
         list_all (fire_instant_exact env) new"
  unfolding schedule_event_def Let_def
  by (rule fold_schedule_notification_new) simp

lemma fold_schedule_event_new:
  "\<exists>new. jobs (fold (schedule_event env offsets) events st) = jobs st @ new \<and>
         list_all (fire_instant_exact env) new"
proof (induction events arbitrary: st)
  case Nil
  show ?case by simp
next
  case (Cons ev events)
  from schedule_event_new [of env offsets ev st]
  obtain new1 where 1: "jobs (schedule_event env offsets ev st) = jobs st @ new1"
    and e1: "list_all (fire_instant_exact env) new1" by blast
  from Cons.IH [of "schedule_event env offsets ev st"]
  obtain new2 where 2: "jobs (fold (schedule_event env offsets) events
        (schedule_event env offsets ev st)) = jobs (schedule_event env offsets ev st) @ new2"
    and e2: "list_all (fire_instant_exact env) new2" by blast
  from 1 2 e1 e2 show ?case by simp
qed

text \<open>
  Claim C3.  Every job that a poll cycle creates has as fire date the start instant of its
  event minus its offset in minutes times 60000 milliseconds; the jobs that were pending
  before the cycle are still there, in front of the new ones.
\<close>

theorem scheduleReminders_fire_instants:
  "\<exists>new. jobs (snd (scheduleReminders env offsets st)) = jobs st @ new \<and>
         list_all (fire_instant_exact env) new"
proof (cases "getUpcomingEvents env st")
  case (Pair r st1)
  have j: "jobs st1 = jobs st"
    using getUpcomingEvents_jobs [of env st] Pair by simp
  show ?thesis
  proof (cases r)
    case (Inl e)
    with Pair j show ?thesis by (simp add: scheduleReminders_def)
  next
    case (Inr events)
    with Pair j fold_schedule_event_new [of env offsets events st1] show ?thesis
      by (simp add: scheduleReminders_def)
  qed
qed

text \<open>
  Claim C1, as stated, fails: the event \<open>evt1\<close> and the offset of ten minutes have one
  pending job after the first poll cycle and two after the second, which found the same
  event again before anything fired.
\<close>

theorem repoll_duplicates_job:
  "live_jobs ''evt1'' ten_minutes (snd (scheduleReminders installation [ten_minutes] startup)) = 1 \<and>
   live_jobs ''evt1'' ten_minutes
     (snd (scheduleReminders installation [ten_minutes]
        (snd (scheduleReminders installation [ten_minutes] startup)))) = 2"
  by (simp add: live_jobs_def count_jobs_def scheduleReminders_def getUpcomingEvents_def
      schedule_event_def schedule_notification_def scheduleJob_def Date_now_def new_Date_def
      startTime_of_def or_else_def installation_def startup_def standup_def ten_minutes_def
      Let_def)

lemma count_jobs_append: "count_jobs i n (xs @ ys) = count_jobs i n xs + count_jobs i n ys"
  by (simp add: count_jobs_def)

text \<open>
  Claim C1, amended.  The scheduling step keeps no record of the pairs it has scheduled
  and gives the scheduler no key.  A poll cycle keeps every pending job and appends the
  whole plan behind them, whatever is already pending, so the number of live jobs of a
  pair grows by the number of entries the plan has for it; a cycle that finds one event and
  has one configured offset, with a valid fire instant strictly later than the reading of
  the clock, leaves one more live job for the pair than there was.
\<close>

theorem scheduleReminders_adds_jobs:
  "(events_list env (Num (clock env (ticks st))) = Inr events \<and>
    (\<forall>ev\<in>set events. \<forall>n\<in>set offsets. valid_fire_instant env ev n) \<longrightarrow>
      live_jobs i n (snd (scheduleReminders env offsets st)) =
        live_jobs i n st + count_jobs i n (cycle_plan env offsets events (Suc (ticks st)))) \<and>
   (events_list env (Num (clock env (ticks st))) = Inr [ev] \<and>
    fire_instant env ev n = Some t \<and> \<bar>t\<bar> \<le> 8640000000000000 \<and>
    clock env (Suc (ticks st)) < t \<longrightarrow>
      live_jobs (event_id ev) n (snd (scheduleReminders env [n] st)) =
        Suc (live_jobs (event_id ev) n st))"
proof (intro conjI impI)
  assume "events_list env (Num (clock env (ticks st))) = Inr events \<and>
    (\<forall>ev\<in>set events. \<forall>n\<in>set offsets. valid_fire_instant env ev n)"
  then show "live_jobs i n (snd (scheduleReminders env offsets st)) =
      live_jobs i n st + count_jobs i n (cycle_plan env offsets events (Suc (ticks st)))"
    using scheduleReminders_plan [of env st events offsets]
    by (simp add: live_jobs_def count_jobs_append)
next
  assume a: "events_list env (Num (clock env (ticks st))) = Inr [ev] \<and>
    fire_instant env ev n = Some t \<and> \<bar>t\<bar> \<le> 8640000000000000 \<and>
    clock env (Suc (ticks st)) < t"
  then have "\<forall>ev\<in>set [ev]. \<forall>n\<in>set [n]. valid_fire_instant env ev n"
    by (simp add: valid_fire_instant_def)
  with a scheduleReminders_plan [of env st "[ev]" "[n]"]
  show "live_jobs (event_id ev) n (snd (scheduleReminders env [n] st)) =
      Suc (live_jobs (event_id ev) n st)"
    by (simp add: live_jobs_def count_jobs_def)
qed

theorem scheduleReminders_adds_jobs_witness:
  "events_list installation (Num (clock installation (ticks startup))) = Inr [standup] \<and>
   fire_instant installation standup ten_minutes = Some 172200000 \<and>
   \<bar>172200000 :: int\<bar> \<le> 8640000000000000 \<and>
   clock installation (Suc (ticks startup)) < 172200000 \<and>
   live_jobs (event_id standup) ten_minutes startup = 0 \<and>
   live_jobs (event_id standup) ten_minutes
     (snd (scheduleReminders installation [ten_minutes] startup)) = 1 \<and>
   live_jobs (event_id standup) ten_minutes
     (snd (scheduleReminders installation [ten_minutes]
        (snd (scheduleReminders installation [ten_minutes] startup)))) = 2"
proof -
  let ?st1 = "snd (scheduleReminders installation [ten_minutes] startup)"
  have f: "fire_instant installation standup ten_minutes = Some 172200000"
    by (simp add: fire_instant_def startTime_of_def or_else_def new_Date_def
        installation_def standup_def ten_minutes_def)
  have t1: "ticks ?st1 = 2"
    by (simp add: scheduleReminders_def getUpcomingEvents_def schedule_event_def
        schedule_notification_ticks Date_now_def installation_def startup_def)
  have e: "events_list installation (Num (clock installation (ticks startup))) = Inr [standup]"
    "events_list installation (Num (clock installation (ticks ?st1))) = Inr [standup]"
    by (simp_all add: installation_def)
  have c: "clock installation (Suc (ticks startup)) < 172200000"
    "clock installation (Suc (ticks ?st1)) < 172200000"
    by (simp_all add: t1) (simp_all add: installation_def startup_def)
  have z: "live_jobs (event_id standup) ten_minutes startup = 0"
    by (simp add: live_jobs_def count_jobs_def startup_def)
  from scheduleReminders_adds_jobs [of installation startup "[standup]" "[ten_minutes]"
      "event_id standup" ten_minutes standup 172200000]
    scheduleReminders_adds_jobs [of installation ?st1 "[standup]" "[ten_minutes]"
      "event_id standup" ten_minutes standup 172200000]
    f e c z
  show ?thesis by simp
qed


section \<open>Properties of the template cache\<close>

lemma getTemplate_cached:
  "property (templates st) (ToString templateName) = Some t \<Longrightarrow>
   getTemplate env templateName st = (Inr t, st)"
  by (simp add: getTemplate_def)

lemma property_update_same: "property (AList.update k v al) k = Some v"
  by (simp add: property_def update_conv')

lemma property_update_other: "k' \<noteq> k \<Longrightarrow> property (AList.update k v al) k' = property al k'"
  by (simp add: property_def update_conv')

lemma getTemplate_caches:
  assumes "getTemplate env templateName st = (Inr t, st1)"
  shows "property (templates st1) (ToString templateName) = Some t"
proof (cases "property (templates st) (ToString templateName)")
  case (Some t')
  with assms show ?thesis by (simp add: getTemplate_def)
next
  case None
  with assms obtain name where n: "templateName = Some name"
    by (cases templateName) (auto simp: getTemplate_def)
  with assms None show ?thesis
    by (auto simp: getTemplate_def Let_def property_update_same split: sum.splits)
qed

lemma getTemplate_keeps:
  assumes "property (templates st) k = Some t"
  shows "property (templates (snd (getTemplate env templateName st))) k = Some t"
proof (cases "property (templates st) (ToString templateName)")
  case (Some t')
  with assms show ?thesis by (simp add: getTemplate_def)
next
  case None
  show ?thesis
  proof (cases templateName)
    case n: None
    with None assms show ?thesis by (simp add: getTemplate_def)
  next
    case (Some name)
    with None assms have "k \<noteq> name" by auto
    with None Some assms show ?thesis
      by (auto simp: getTemplate_def Let_def property_update_other split: sum.splits)
  qed
qed

lemma getTemplate_calls_keep:
  "property (templates st) k = Some t \<Longrightarrow>
   property (templates (getTemplate_calls env others st)) k = Some t"
  by (induction others arbitrary: st) (simp_all add: getTemplate_keeps)

lemma getTemplate_again:
  assumes "getTemplate env templateName st = (Inr t, st1)"
  shows "getTemplate env templateName (getTemplate_calls env others st1) =
           (Inr t, getTemplate_calls env others st1)"
  by (rule getTemplate_cached [OF getTemplate_calls_keep [OF getTemplate_caches [OF assms]]])
lemma compilations_snoc:
  "compilations env (rs @ [name]) =
     (if isl (readFileSync env (length rs) name) then compilations env rs
      else compilations env rs @ [name])"
  by (simp add: compilations_def enumerate_append_eq)

lemma property_None_not_own: "property al k = None \<Longrightarrow> k \<notin> fst ` set al"
  by (auto simp: property_def map_of_eq_None_iff split: option.splits if_splits)

lemma getTemplate_compiled_once:
  assumes "compiled_once env st"
  shows "compiled_once env (snd (getTemplate env templateName st))"
proof (cases "property (templates st) (ToString templateName)")
  case (Some t)
  with assms show ?thesis by (simp add: getTemplate_def)
next
  case None
  show ?thesis
  proof (cases templateName)
    case n: None
    with None assms show ?thesis by (simp add: getTemplate_def)
  next
    case (Some name)
    with None have "name \<notin> fst ` set (templates st)"
      using property_None_not_own [of "templates st" name] by simp
    with assms have fresh: "name \<notin> set (compilations env (reads st))"
      by (auto simp: compiled_once_def)
    show ?thesis
    proof (cases "readFileSync env (length (reads st)) name")
      case (Inl e)
      with None Some assms show ?thesis
        by (simp add: getTemplate_def Let_def compiled_once_def compilations_snoc)
    next
      case (Inr templateContent)
      with None Some assms fresh show ?thesis
        by (auto simp: getTemplate_def Let_def compiled_once_def compilations_snoc
            dom_update)
    qed
  qed
qed

lemma getTemplate_calls_compiled_once:
  "compiled_once env st \<Longrightarrow> compiled_once env (getTemplate_calls env names st)"
  by (induction names arbitrary: st) (simp_all add: getTemplate_compiled_once)

lemma no_reads_compiled_once: "reads st = [] \<Longrightarrow> compiled_once env st"
  by (simp add: compiled_once_def compilations_def)

text \<open>
  Claim C10, as stated, fails for a name whose file cannot be read: the call caches
  nothing, so the next call with the same name reads the file again; and when the file has
  become readable in between, the second call returns a template where the first threw.
\<close>

theorem getTemplate_failed_read_repeats:
  "getTemplate installation (Some ''missing.hbs'') startup =
     (Inl (SystemError ''ENOENT''), startup\<lparr>reads := [''missing.hbs'']\<rparr>) \<and>
   getTemplate installation (Some ''missing.hbs'') (startup\<lparr>reads := [''missing.hbs'']\<rparr>) =
     (Inl (SystemError ''ENOENT''), startup\<lparr>reads := [''missing.hbs'', ''missing.hbs'']\<rparr>) \<and>
   getTemplate recovering_disk (Some ''slack.hbs'') startup =
     (Inl (SystemError ''EACCES''), startup\<lparr>reads := [''slack.hbs'']\<rparr>) \<and>
   getTemplate recovering_disk (Some ''slack.hbs'') (startup\<lparr>reads := [''slack.hbs'']\<rparr>) =
     (Inr (Compiled ''Reminder''),
      startup\<lparr>reads := [''slack.hbs'', ''slack.hbs''],
        templates := [(''slack.hbs'', Compiled ''Reminder'')]\<rparr>)"
  by (simp add: getTemplate_def property_def Object_prototype_keys_def recovering_disk_def
      installation_def startup_def Let_def)

text \<open>
  Claim C10, amended.  Once \<open>getTemplate\<close> has returned a template for a name, every later
  call with that name, after any number of calls with other names, returns the same
  template and leaves the state as it is, the trace of file reads included; and in any run
  that starts with no file read, no name is read with success, and compiled, twice.
\<close>

theorem getTemplate_idempotent:
  "(getTemplate env templateName st = (Inr t, st1) \<longrightarrow>
      getTemplate env templateName (getTemplate_calls env others st1) =
        (Inr t, getTemplate_calls env others st1)) \<and>
   (reads st0 = [] \<longrightarrow>
      distinct (compilations env (reads (getTemplate_calls env names st0))))"
  using getTemplate_again [of env templateName st t st1 others]
    getTemplate_calls_compiled_once [OF no_reads_compiled_once, of st0 env names]
  by (simp add: compiled_once_def)

theorem getTemplate_idempotent_witness:
  "getTemplate installation (Some ''slack.hbs'') startup =
     (Inr (Compiled ''Reminder''),
      startup\<lparr>reads := [''slack.hbs''], templates := [(''slack.hbs'', Compiled ''Reminder'')]\<rparr>) \<and>
   getTemplate installation (Some ''slack.hbs'')
     (getTemplate_calls installation [Some ''hibob.hbs'']
        (startup\<lparr>reads := [''slack.hbs''], templates := [(''slack.hbs'', Compiled ''Reminder'')]\<rparr>)) =
     (Inr (Compiled ''Reminder''),
      startup\<lparr>reads := [''slack.hbs'', ''hibob.hbs''],
        templates := [(''slack.hbs'', Compiled ''Reminder'')]\<rparr>) \<and>
   reads startup = [] \<and>
   distinct (compilations installation
     (reads (getTemplate_calls installation [Some ''slack.hbs'', Some ''slack.hbs''] startup)))"
  using getTemplate_idempotent [of installation "Some ''slack.hbs''" startup "Compiled ''Reminder''"
      "startup\<lparr>reads := [''slack.hbs''], templates := [(''slack.hbs'', Compiled ''Reminder'')]\<rparr>"
      "[Some ''hibob.hbs'']" startup "[Some ''slack.hbs'', Some ''slack.hbs'']"]
  by (simp add: getTemplate_def property_def Object_prototype_keys_def installation_def
      startup_def Let_def)

section \<open>Properties of dispatch\<close>

lemma sendSlackMessage_failure:
  "postMessage env (length (slack_calls st)) message = Some e \<Longrightarrow>
   sendSlackMessage env message st =
     (Inr (), st\<lparr>slack_calls := slack_calls st @ [message],
                 console := console st @ [(''Error sending Slack message:'', e)]\<rparr>)"
  by (simp add: sendSlackMessage_def Let_def)

lemma sendHiBobShoutout_failure:
  "post env (length (hibob_calls st)) message = Some e \<Longrightarrow>
   sendHiBobShoutout env message st =
     (Inr (), st\<lparr>hibob_calls := hibob_calls st @ [message],
                 console := console st @ [(''Error sending HiBob shoutout:'', e)]\<rparr>)"
  by (simp add: sendHiBobShoutout_def Let_def)

text \<open>
  Claim C8.  When the template was found and rendered and the one call to the chat service
  or to the shout-out service fails, \<open>sendNotification\<close> resolves normally: the failure is
  written to the console, the service was called once and not again, and nothing else in
  the state, the pending jobs among it, has changed.
\<close>

theorem delivery_failure_contained:
  assumes "getTemplate env (template_of cfg) st = (Inr tmpl, st1)"
    and "template_call env tmpl (formatEventData env ev) = Inr message"
  shows "(type_of cfg = Some ''slack'' \<and>
          postMessage env (length (slack_calls st1)) message = Some e \<longrightarrow>
            sendNotification env ev cfg st =
              (Inr (), st1\<lparr>slack_calls := slack_calls st1 @ [message],
                           console := console st1 @ [(''Error sending Slack message:'', e)]\<rparr>)) \<and>
         (type_of cfg = Some ''hibob'' \<and>
          post env (length (hibob_calls st1)) message = Some e \<longrightarrow>
            sendNotification env ev cfg st =
              (Inr (), st1\<lparr>hibob_calls := hibob_calls st1 @ [message],
                           console := console st1 @ [(''Error sending HiBob shoutout:'', e)]\<rparr>))"
  using assms
  by (simp add: sendNotification_def Let_def sendSlackMessage_failure sendHiBobShoutout_failure)

theorem delivery_failure_contained_witness:
  "getTemplate flaky_chat (template_of (Rule chat_rule)) startup =
     (Inr (Compiled ''Reminder''),
      startup\<lparr>reads := [''slack.hbs''], templates := [(''slack.hbs'', Compiled ''Reminder'')]\<rparr>) \<and>
   template_call flaky_chat (Compiled ''Reminder'') (formatEventData flaky_chat standup) =
     Inr ''Reminder'' \<and>
   type_of (Rule chat_rule) = Some ''slack'' \<and>
   postMessage flaky_chat 0 ''Reminder'' = Some (CollaboratorError ''channel_not_found'') \<and>
   sendNotification flaky_chat standup (Rule chat_rule) startup =
     (Inr (),
      startup\<lparr>reads := [''slack.hbs''], templates := [(''slack.hbs'', Compiled ''Reminder'')],
        slack_calls := [''Reminder''],
        console := [(''Error sending Slack message:'', CollaboratorError ''channel_not_found'')]\<rparr>) \<and>
   sendNotification flaky_chat standup (Rule chat_rule)
     (snd (sendNotification flaky_chat standup (Rule chat_rule) startup)) =
     (Inr (),
      startup\<lparr>reads := [''slack.hbs''], templates := [(''slack.hbs'', Compiled ''Reminder'')],
        slack_calls := [''Reminder'', ''Reminder''],
        console := [(''Error sending Slack message:'', CollaboratorError ''channel_not_found'')]\<rparr>)"
  using delivery_failure_contained [of flaky_chat "Rule chat_rule" startup "Compiled ''Reminder''"
      "startup\<lparr>reads := [''slack.hbs''], templates := [(''slack.hbs'', Compiled ''Reminder'')]\<rparr>"
      standup "''Reminder''" "CollaboratorError ''channel_not_found''"]
  by (simp add: sendNotification_def sendSlackMessage_def getTemplate_def property_def
      Object_prototype_keys_def flaky_chat_def installation_def chat_rule_def startup_def Let_def)

lemma getTemplate_calls_logs:
  "slack_calls (snd (getTemplate env templateName st)) = slack_calls st"
  "hibob_calls (snd (getTemplate env templateName st)) = hibob_calls st"
  by (simp_all add: getTemplate_def Let_def split: option.splits sum.splits)

text \<open>
  Claim C9.  When the type of the notification matches neither channel, no delivery
  service is called, whatever else happens; and with the template found and rendered,
  \<open>sendNotification\<close> resolves normally, in the state \<open>getTemplate\<close> left: the dispatch is a
  silent no-op.
\<close>

theorem unknown_type_is_noop:
  assumes "type_of cfg \<noteq> Some ''slack''" and "type_of cfg \<noteq> Some ''hibob''"
  shows "slack_calls (snd (sendNotification env ev cfg st)) = slack_calls st \<and>
         hibob_calls (snd (sendNotification env ev cfg st)) = hibob_calls st \<and>
         (getTemplate env (template_of cfg) st = (Inr tmpl, st1) \<and>
          template_call env tmpl (formatEventData env ev) = Inr message \<longrightarrow>
            sendNotification env ev cfg st = (Inr (), st1))"
proof -
  obtain r st' where g: "getTemplate env (template_of cfg) st = (r, st')"
    by (cases "getTemplate env (template_of cfg) st")
  have l: "slack_calls st' = slack_calls st" "hibob_calls st' = hibob_calls st"
    using getTemplate_calls_logs [of env "template_of cfg" st] g by simp_all
  show ?thesis
    using assms g l
    by (auto simp: sendNotification_def Let_def split: sum.splits)
qed

theorem unknown_type_is_noop_witness:
  "type_of (Rule (email_rule\<lparr>template := Some ''slack.hbs''\<rparr>)) \<noteq> Some ''slack'' \<and>
   type_of (Rule (email_rule\<lparr>template := Some ''slack.hbs''\<rparr>)) \<noteq> Some ''hibob'' \<and>
   getTemplate installation (template_of (Rule (email_rule\<lparr>template := Some ''slack.hbs''\<rparr>))) startup =
     (Inr (Compiled ''Reminder''),
      startup\<lparr>reads := [''slack.hbs''], templates := [(''slack.hbs'', Compiled ''Reminder'')]\<rparr>) \<and>
   template_call installation (Compiled ''Reminder'') (formatEventData installation standup) =
     Inr ''Reminder'' \<and>
   sendNotification installation standup (Rule (email_rule\<lparr>template := Some ''slack.hbs''\<rparr>)) startup =
     (Inr (),
      startup\<lparr>reads := [''slack.hbs''], templates := [(''slack.hbs'', Compiled ''Reminder'')]\<rparr>)"
  using unknown_type_is_noop [of "Rule (email_rule\<lparr>template := Some ''slack.hbs''\<rparr>)"
      installation standup startup "Compiled ''Reminder''"
      "startup\<lparr>reads := [''slack.hbs''], templates := [(''slack.hbs'', Compiled ''Reminder'')]\<rparr>"
      "''Reminder''"]
  by (simp add: getTemplate_def property_def Object_prototype_keys_def installation_def
      email_rule_def startup_def Let_def)

text \<open>
  Claim C7 against the code.  A template file that cannot be read, a template whose call
  throws, and the job the program itself schedules (whose callback hands \<open>sendNotification\<close>
  an object without a \<open>template\<close> property) each make \<open>sendNotification\<close> reject: no
  message is sent, and nothing is caught or written to the console.
\<close>

theorem template_failure_rejects:
  "sendNotification installation standup (Rule (chat_rule\<lparr>template := Some ''missing.hbs''\<rparr>)) startup =
     (Inl (SystemError ''ENOENT''), startup\<lparr>reads := [''missing.hbs'']\<rparr>) \<and>
   sendNotification (installation\<lparr>template_call := (\<lambda>t d. Inl (CollaboratorError ''Parse error''))\<rparr>)
       standup (Rule chat_rule) startup =
     (Inl (CollaboratorError ''Parse error''),
      startup\<lparr>reads := [''slack.hbs''], templates := [(''slack.hbs'', Compiled ''Reminder'')]\<rparr>) \<and>
   fire installation \<lparr>fireDate = Num 172200000, job_event = standup, job_notification = ten_minutes\<rparr>
       (startup\<lparr>jobs := [\<lparr>fireDate = Num 172200000, job_event = standup,
                            job_notification = ten_minutes\<rparr>]\<rparr>) =
     (Inl (TypeError ''The path argument must be of type string''), startup)"
  by (simp add: fire_def sendNotification_def getTemplate_def property_def
      Object_prototype_keys_def installation_def chat_rule_def startup_def Let_def)

end
